theory Spec2Isabelle
  imports Main
begin

section \<open>ClickUp task service: data, errors and effects\<close>

text \<open>
  The service is a stateless proxy in front of ClickUp. An asynchronous method of the
  TypeScript source is modelled as a function from the world before the call to its outcome
  and the world after it: \<open>Inr\<close> the value the promise resolves to, \<open>Inl\<close> the value
  it rejects with (what \<open>throw\<close> raises). The world holds the remote ClickUp state, of a
  type \<open>'s\<close> this layer knows nothing about, and the trace of the calls the service has
  made, in the order it made them. JavaScript values of type \<open>any\<close> are the opaque
  type \<open>'v\<close>.
\<close>

subsection \<open>Domain objects\<close>

text \<open>
  \<open>ClickUpTask\<close> (declared in \<open>types.ts\<close>): the attributes used here. The optional
  attribute \<open>custom_fields?: Record<string, any>\<close> is \<open>None\<close> when it is absent
  (\<open>undefined\<close>).
\<close>

record 'v ClickUpTask =
  task_id :: string
  task_name :: string
  custom_fields :: "(string \<rightharpoonup> 'v) option"

text \<open>\<open>interface CustomFieldValue { id: string; value: any }\<close>\<close>

record 'v CustomFieldValue =
  field_id :: string
  field_value :: 'v

text \<open>The request body \<open>{ value }\<close> of the custom-field POST.\<close>

datatype 'v payload = Payload 'v

subsection \<open>Errors\<close>

text \<open>
  What a method can reject with. \<open>JsError m\<close> is \<open>new Error(m)\<close>. \<open>Upstream e\<close> is
  any other thrown value, of the opaque type \<open>'e\<close>: what the HTTP adapter raises and what
  \<open>handleError\<close> builds. \<open>NotFound\<close>, \<open>Ambiguous\<close> and \<open>Validation\<close> are the
  error kinds the specification names for task resolution.
\<close>

datatype ('e, 'v) error =
    JsError string
  | Upstream 'e
  | NotFound string
  | Ambiguous "'v ClickUpTask list"
  | Validation string

subsection \<open>The world and the call trace\<close>

datatype list_scope = ListId string | ListName string

datatype 'v logarg =
    LStr string
  | LAny 'v
  | LBool bool
  | LFields "'v CustomFieldValue list"

datatype 'v event =
    LogOperation string "(string \<times> 'v logarg) list"
  | HttpPost string "'v payload"
  | GetTask string
  | ListTasksQuery list_scope
  | WorkspaceTasksQuery
  | UpdateTask string

record ('s, 'v) world =
  server :: 's
  trace :: "'v event list"

type_synonym ('s, 'e, 'v, 'a) remote = "'s \<Rightarrow> (('e, 'v) error + 'a) \<times> 's"

type_synonym ('s, 'e, 'v, 'a) io =
  "('s, 'v) world \<Rightarrow> (('e, 'v) error + 'a) \<times> ('s, 'v) world"

text \<open>
  One call that leaves the service: the event is appended to the trace when the call is
  made, whether it succeeds or not, and the remote state changes as the callee decides.
\<close>

definition call :: "'v event \<Rightarrow> ('s, 'e, 'v, 'a) remote \<Rightarrow> ('s, 'e, 'v, 'a) io" where
  "call ev f w =
     (case f (server w) of
        (r, s') \<Rightarrow> (r, \<lparr>server = s', trace = trace w @ [ev]\<rparr>))"

definition posts_of :: "'v event list \<Rightarrow> (string \<times> 'v payload) list" where
  "posts_of evs = List.map_filter (\<lambda>ev. case ev of HttpPost u p \<Rightarrow> Some (u, p) | _ \<Rightarrow> None) evs"

subsection \<open>Task core\<close>

text \<open>
  \<open>TaskServiceCore\<close> (\<open>task-core.ts\<close>) is not among the sources verified here; what the
  custom-fields module uses of it is taken as parameters: the HTTP client's \<open>post\<close>,
  \<open>getTask\<close> and the error translation \<open>handleError\<close>.
\<close>

record ('s, 'e, 'v) TaskServiceCore =
  client_post :: "string \<Rightarrow> 'v payload \<Rightarrow> ('s, 'e, 'v, unit) remote"
  getTask :: "string \<Rightarrow> ('s, 'e, 'v, 'v ClickUpTask) remote"
  handleError :: "('e, 'v) error \<Rightarrow> string \<Rightarrow> ('e, 'v) error"

definition core_post ::
  "('s, 'e, 'v) TaskServiceCore \<Rightarrow> string \<Rightarrow> 'v payload \<Rightarrow> ('s, 'e, 'v, unit) io" where
  "core_post c url body = call (HttpPost url body) (client_post c url body)"

definition core_getTask ::
  "('s, 'e, 'v) TaskServiceCore \<Rightarrow> string \<Rightarrow> ('s, 'e, 'v, 'v ClickUpTask) io" where
  "core_getTask c taskId = call (GetTask taskId) (getTask c taskId)"

text \<open>
  Modelled from the spec: \<open>logOperation\<close> of the task core, which is not among the sources
  verified here. Every operation's inputs are logged before it runs, and logging does not affect
  control flow (section 7): the call is recorded and nothing else happens.
\<close>

definition logOperation ::
  "string \<Rightarrow> (string \<times> 'v logarg) list \<Rightarrow> ('s, 'v) world \<Rightarrow> ('s, 'v) world" where
  "logOperation opname args w = w\<lparr>trace := trace w @ [LogOperation opname args]\<rparr>"

text \<open>
  Modelled from the spec: \<open>makeRequest\<close> of the task core, which is not among the sources verified
  here. It runs the request function it is given; results and errors flow back up, and no
  operation is retried (sections 2 and 5): one run, its outcome returned as it is.
\<close>

definition makeRequest :: "('s, 'e, 'v, 'a) io \<Rightarrow> ('s, 'e, 'v, 'a) io" where
  "makeRequest fn = fn"

section \<open>Custom fields module\<close>

text \<open>\<open>class TaskServiceCustomFields { constructor(private core: TaskServiceCore) {} }\<close>\<close>

record ('s, 'e, 'v) TaskServiceCustomFields =
  core :: "('s, 'e, 'v) TaskServiceCore"

definition field_url :: "string \<Rightarrow> string \<Rightarrow> string" where
  "field_url taskId fieldId = ''/task/'' @ taskId @ ''/field/'' @ fieldId"

definition set_field_failed :: "string \<Rightarrow> string" where
  \<open>set_field_failed fieldId = ''Failed to set custom field "'' @ fieldId @ ''" value''\<close>

definition get_field_failed :: "string \<Rightarrow> string" where
  \<open>get_field_failed fieldId = ''Failed to get custom field "'' @ fieldId @ ''" value''\<close>

definition field_not_found :: "string \<Rightarrow> string" where
  \<open>field_not_found fieldId = ''Custom field "'' @ fieldId @ ''" not found on task''\<close>

definition setCustomFieldValue ::
  "('s, 'e, 'v) TaskServiceCustomFields \<Rightarrow> string \<Rightarrow> string \<Rightarrow> 'v \<Rightarrow> ('s, 'e, 'v, bool) io" where
  "setCustomFieldValue this taskId fieldId v w =
     (let w1 = logOperation ''setCustomFieldValue''
                 [(''taskId'', LStr taskId), (''fieldId'', LStr fieldId), (''value'', LAny v)] w;
          body = Payload v
      in case makeRequest (core_post (core this) (field_url taskId fieldId) body) w1 of
           (Inr _, w2) \<Rightarrow> (Inr True, w2)
         | (Inl err, w2) \<Rightarrow> (Inl (handleError (core this) err (set_field_failed fieldId)), w2))"

text \<open>
  The \<open>for ... of\<close> loop of \<open>setCustomFieldValues\<close>: each call is awaited before the next
  one starts, and a rejected call leaves the loop.
\<close>

fun setCustomFieldValues_loop ::
  "('s, 'e, 'v) TaskServiceCustomFields \<Rightarrow> string \<Rightarrow> 'v CustomFieldValue list
     \<Rightarrow> ('s, 'e, 'v, unit) io" where
  "setCustomFieldValues_loop this taskId [] w = (Inr (), w)"
| "setCustomFieldValues_loop this taskId (field # rest) w =
     (case setCustomFieldValue this taskId (field_id field) (field_value field) w of
        (Inl err, w') \<Rightarrow> (Inl err, w')
      | (Inr _, w') \<Rightarrow> setCustomFieldValues_loop this taskId rest w')"

definition setCustomFieldValues ::
  "('s, 'e, 'v) TaskServiceCustomFields \<Rightarrow> string \<Rightarrow> 'v CustomFieldValue list
     \<Rightarrow> ('s, 'e, 'v, bool) io" where
  "setCustomFieldValues this taskId customFields w =
     (let w1 = logOperation ''setCustomFieldValues''
                 [(''taskId'', LStr taskId), (''customFields'', LFields customFields)] w
      in case setCustomFieldValues_loop this taskId customFields w1 of
           (Inr _, w2) \<Rightarrow> (Inr True, w2)
         | (Inl err, w2) \<Rightarrow>
             (Inl (handleError (core this) err ''Failed to set custom field values''), w2))"

definition getCustomFieldValues ::
  "('s, 'e, 'v) TaskServiceCustomFields \<Rightarrow> string \<Rightarrow> ('s, 'e, 'v, string \<rightharpoonup> 'v) io" where
  "getCustomFieldValues this taskId w =
     (let w1 = logOperation ''getCustomFieldValues'' [(''taskId'', LStr taskId)] w
      in case core_getTask (core this) taskId w1 of
           (Inr task, w2) \<Rightarrow>
             (Inr (case custom_fields task of Some m \<Rightarrow> m | None \<Rightarrow> Map.empty), w2)
         | (Inl err, w2) \<Rightarrow>
             (Inl (handleError (core this) err ''Failed to get custom field values''), w2))"

subsection \<open>Property lookup on a JavaScript object\<close>

text \<open>
  The mapping \<open>getCustomFieldValues\<close> returns is an ordinary object: the object parsed
  from the response, or the literal \<open>{}\<close>. Its prototype is \<open>Object.prototype\<close>. The
  operator \<open>in\<close> and the property read \<open>obj[key]\<close> both follow the prototype chain, so
  they see the object's own keys and the properties of \<open>Object.prototype\<close>.
\<close>

definition Object_prototype_keys :: "string list" where
  "Object_prototype_keys =
     [''constructor'', ''hasOwnProperty'', ''isPrototypeOf'', ''propertyIsEnumerable'',
      ''toLocaleString'', ''toString'', ''valueOf'', ''__proto__'',
      ''__defineGetter__'', ''__defineSetter__'', ''__lookupGetter__'', ''__lookupSetter__'']"

datatype 'v js_property = Own 'v | Inherited string | Undefined

definition js_in :: "string \<Rightarrow> (string \<rightharpoonup> 'v) \<Rightarrow> bool" where
  "js_in key obj =
     (case obj key of Some v \<Rightarrow> True | None \<Rightarrow> key \<in> set Object_prototype_keys)"

definition js_get :: "(string \<rightharpoonup> 'v) \<Rightarrow> string \<Rightarrow> 'v js_property" where
  "js_get obj key =
     (case obj key of
        Some v \<Rightarrow> Own v
      | None \<Rightarrow> if key \<in> set Object_prototype_keys then Inherited key else Undefined)"

definition getCustomFieldValue ::
  "('s, 'e, 'v) TaskServiceCustomFields \<Rightarrow> string \<Rightarrow> string \<Rightarrow> ('s, 'e, 'v, 'v js_property) io" where
  "getCustomFieldValue this taskId fieldId w =
     (let w1 = logOperation ''getCustomFieldValue''
                 [(''taskId'', LStr taskId), (''fieldId'', LStr fieldId)] w
      in case getCustomFieldValues this taskId w1 of
           (Inr customFields, w2) \<Rightarrow>
             if js_in fieldId customFields then (Inr (js_get customFields fieldId), w2)
             else (Inl (handleError (core this)
                          (handleError (core this) (JsError (field_not_found fieldId))
                             (field_not_found fieldId))
                          (get_field_failed fieldId)), w2)
         | (Inl err, w2) \<Rightarrow> (Inl (handleError (core this) err (get_field_failed fieldId)), w2))"

section \<open>Task service facade\<close>

text \<open>
  The types the facade only passes through (declared in \<open>types.ts\<close>, or built into the
  runtime) are opaque. Filter and update objects are objects with optional attributes, so
  \<open>{}\<close> is the empty map.
\<close>

typedecl DetailedTaskResponse
typedecl WorkspaceTasksResponse
typedecl ClickUpComment
typedecl ClickUpTag
typedecl ClickUpTaskAttachment
typedecl Buffer
typedecl JsNumber

type_synonym 'v ExtendedTaskFilters = "string \<rightharpoonup> 'v"
type_synonym 'v UpdateTaskData = "string \<rightharpoonup> 'v"

text \<open>The parameter object of \<open>findTasks\<close>; every attribute is optional.\<close>

record FindTasksParams =
  p_taskId :: "string option"
  p_customTaskId :: "string option"
  p_taskName :: "string option"
  p_listId :: "string option"
  p_listName :: "string option"
  p_allowMultipleMatches :: "bool option"
  p_useSmartDisambiguation :: "bool option"
  p_includeFullDetails :: "bool option"
  p_includeListContext :: "bool option"
  p_requireExactMatch :: "bool option"

text \<open>\<open>ClickUpTask | ClickUpTask[] | null\<close>\<close>

datatype 'v found = Single "'v ClickUpTask" | Many "'v ClickUpTask list" | Null

text \<open>
  The classes \<open>TaskServiceSearch\<close>, \<open>TaskServiceAttachments\<close>, \<open>TaskServiceComments\<close>
  and \<open>TaskServiceTags\<close> are not among the sources verified here. The facade sees each of them
  as an object with the methods it calls, so each is a record of those methods.
\<close>

record ('s, 'e, 'v) TaskServiceSearch =
  findTaskByName :: "string \<Rightarrow> string \<Rightarrow> ('s, 'e, 'v, 'v ClickUpTask option) io"
  getWorkspaceTasks ::
    "'v ExtendedTaskFilters \<Rightarrow> ('s, 'e, 'v, DetailedTaskResponse + WorkspaceTasksResponse) io"
  getTaskSummaries :: "'v ExtendedTaskFilters \<Rightarrow> ('s, 'e, 'v, WorkspaceTasksResponse) io"
  getListViews :: "string \<Rightarrow> ('s, 'e, 'v, string option) io"
  getTasksFromView :: "string \<Rightarrow> 'v ExtendedTaskFilters \<Rightarrow> ('s, 'e, 'v, 'v ClickUpTask list) io"
  getTaskDetails :: "'v ExtendedTaskFilters \<Rightarrow> ('s, 'e, 'v, DetailedTaskResponse) io"
  updateTaskByName ::
    "string \<Rightarrow> string \<Rightarrow> 'v UpdateTaskData \<Rightarrow> ('s, 'e, 'v, 'v ClickUpTask) io"
  findTaskByNameGlobally :: "string \<Rightarrow> ('s, 'e, 'v, 'v ClickUpTask option) io"
  findTasks :: "FindTasksParams \<Rightarrow> ('s, 'e, 'v, 'v found) io"

record ('s, 'e, 'v) TaskServiceAttachments =
  uploadTaskAttachment :: "string \<Rightarrow> Buffer \<Rightarrow> string \<Rightarrow> ('s, 'e, 'v, ClickUpTaskAttachment) io"
  uploadTaskAttachmentFromUrl ::
    "string \<Rightarrow> string \<Rightarrow> string option \<Rightarrow> string option \<Rightarrow> ('s, 'e, 'v, ClickUpTaskAttachment) io"

record ('s, 'e, 'v) TaskServiceComments =
  getTaskComments ::
    "string \<Rightarrow> JsNumber option \<Rightarrow> string option \<Rightarrow> ('s, 'e, 'v, ClickUpComment list) io"
  createTaskComment ::
    "string \<Rightarrow> string \<Rightarrow> bool option \<Rightarrow> JsNumber option \<Rightarrow> ('s, 'e, 'v, ClickUpComment) io"

record ('s, 'e, 'v) TaskServiceTags =
  addTagToTask :: "string \<Rightarrow> string \<Rightarrow> ('s, 'e, 'v, bool) io"
  removeTagFromTask :: "string \<Rightarrow> string \<Rightarrow> ('s, 'e, 'v, bool) io"
  getTaskTags :: "string \<Rightarrow> ('s, 'e, 'v, ClickUpTag list) io"
  updateTaskTags :: "string \<Rightarrow> string list \<Rightarrow> ('s, 'e, 'v, bool) io"

text \<open>
  \<open>class TaskService extends TaskServiceCore\<close>, with the five composed services as
  read-only properties.
\<close>

record ('s, 'e, 'v) TaskService = "('s, 'e, 'v) TaskServiceCore" +
  search :: "('s, 'e, 'v) TaskServiceSearch"
  attachments :: "('s, 'e, 'v) TaskServiceAttachments"
  comments :: "('s, 'e, 'v) TaskServiceComments"
  tags :: "('s, 'e, 'v) TaskServiceTags"
  customFields :: "('s, 'e, 'v) TaskServiceCustomFields"

text \<open>
  A parameter declared \<open>filters: ExtendedTaskFilters = {}\<close> may be left out; the method
  body then sees \<open>{}\<close>.
\<close>

definition filters_or_default :: "'v ExtendedTaskFilters option \<Rightarrow> 'v ExtendedTaskFilters" where
  "filters_or_default given = (case given of Some filters \<Rightarrow> filters | None \<Rightarrow> Map.empty)"

subsection \<open>Delegated search methods\<close>

definition TaskService_findTaskByName ::
  "('s, 'e, 'v) TaskService \<Rightarrow> string \<Rightarrow> string \<Rightarrow> ('s, 'e, 'v, 'v ClickUpTask option) io" where
  "TaskService_findTaskByName this listId taskName = findTaskByName (search this) listId taskName"

definition TaskService_getWorkspaceTasks ::
  "('s, 'e, 'v) TaskService \<Rightarrow> 'v ExtendedTaskFilters option
     \<Rightarrow> ('s, 'e, 'v, DetailedTaskResponse + WorkspaceTasksResponse) io" where
  "TaskService_getWorkspaceTasks this given =
     getWorkspaceTasks (search this) (filters_or_default given)"

definition TaskService_getTaskSummaries ::
  "('s, 'e, 'v) TaskService \<Rightarrow> 'v ExtendedTaskFilters option
     \<Rightarrow> ('s, 'e, 'v, WorkspaceTasksResponse) io" where
  "TaskService_getTaskSummaries this given =
     getTaskSummaries (search this) (filters_or_default given)"

definition TaskService_getListViews ::
  "('s, 'e, 'v) TaskService \<Rightarrow> string \<Rightarrow> ('s, 'e, 'v, string option) io" where
  "TaskService_getListViews this listId = getListViews (search this) listId"

definition TaskService_getTasksFromView ::
  "('s, 'e, 'v) TaskService \<Rightarrow> string \<Rightarrow> 'v ExtendedTaskFilters option
     \<Rightarrow> ('s, 'e, 'v, 'v ClickUpTask list) io" where
  "TaskService_getTasksFromView this viewId given =
     getTasksFromView (search this) viewId (filters_or_default given)"

definition TaskService_getTaskDetails ::
  "('s, 'e, 'v) TaskService \<Rightarrow> 'v ExtendedTaskFilters option
     \<Rightarrow> ('s, 'e, 'v, DetailedTaskResponse) io" where
  "TaskService_getTaskDetails this given =
     getTaskDetails (search this) (filters_or_default given)"

definition TaskService_updateTaskByName ::
  "('s, 'e, 'v) TaskService \<Rightarrow> string \<Rightarrow> string \<Rightarrow> 'v UpdateTaskData
     \<Rightarrow> ('s, 'e, 'v, 'v ClickUpTask) io" where
  "TaskService_updateTaskByName this listId taskName updateData =
     updateTaskByName (search this) listId taskName updateData"

definition TaskService_findTaskByNameGlobally ::
  "('s, 'e, 'v) TaskService \<Rightarrow> string \<Rightarrow> ('s, 'e, 'v, 'v ClickUpTask option) io" where
  "TaskService_findTaskByNameGlobally this taskName = findTaskByNameGlobally (search this) taskName"

definition TaskService_findTasks ::
  "('s, 'e, 'v) TaskService \<Rightarrow> FindTasksParams \<Rightarrow> ('s, 'e, 'v, 'v found) io" where
  "TaskService_findTasks this params = findTasks (search this) params"

subsection \<open>Delegated attachment methods\<close>

definition TaskService_uploadTaskAttachment ::
  "('s, 'e, 'v) TaskService \<Rightarrow> string \<Rightarrow> Buffer \<Rightarrow> string
     \<Rightarrow> ('s, 'e, 'v, ClickUpTaskAttachment) io" where
  "TaskService_uploadTaskAttachment this taskId fileData fileName =
     uploadTaskAttachment (attachments this) taskId fileData fileName"

definition TaskService_uploadTaskAttachmentFromUrl ::
  "('s, 'e, 'v) TaskService \<Rightarrow> string \<Rightarrow> string \<Rightarrow> string option \<Rightarrow> string option
     \<Rightarrow> ('s, 'e, 'v, ClickUpTaskAttachment) io" where
  "TaskService_uploadTaskAttachmentFromUrl this taskId fileUrl fileName authHeader =
     uploadTaskAttachmentFromUrl (attachments this) taskId fileUrl fileName authHeader"

subsection \<open>Delegated comment methods\<close>

definition TaskService_getTaskComments ::
  "('s, 'e, 'v) TaskService \<Rightarrow> string \<Rightarrow> JsNumber option \<Rightarrow> string option
     \<Rightarrow> ('s, 'e, 'v, ClickUpComment list) io" where
  "TaskService_getTaskComments this taskId start startId =
     getTaskComments (comments this) taskId start startId"

definition TaskService_createTaskComment ::
  "('s, 'e, 'v) TaskService \<Rightarrow> string \<Rightarrow> string \<Rightarrow> bool option \<Rightarrow> JsNumber option
     \<Rightarrow> ('s, 'e, 'v, ClickUpComment) io" where
  "TaskService_createTaskComment this taskId commentText notifyAll assignee =
     createTaskComment (comments this) taskId commentText notifyAll assignee"

subsection \<open>Delegated tag methods\<close>

definition TaskService_addTagToTask ::
  "('s, 'e, 'v) TaskService \<Rightarrow> string \<Rightarrow> string \<Rightarrow> ('s, 'e, 'v, bool) io" where
  "TaskService_addTagToTask this taskId tagName = addTagToTask (tags this) taskId tagName"

definition TaskService_removeTagFromTask ::
  "('s, 'e, 'v) TaskService \<Rightarrow> string \<Rightarrow> string \<Rightarrow> ('s, 'e, 'v, bool) io" where
  "TaskService_removeTagFromTask this taskId tagName = removeTagFromTask (tags this) taskId tagName"

definition TaskService_getTaskTags ::
  "('s, 'e, 'v) TaskService \<Rightarrow> string \<Rightarrow> ('s, 'e, 'v, ClickUpTag list) io" where
  "TaskService_getTaskTags this taskId = getTaskTags (tags this) taskId"

definition TaskService_updateTaskTags ::
  "('s, 'e, 'v) TaskService \<Rightarrow> string \<Rightarrow> string list \<Rightarrow> ('s, 'e, 'v, bool) io" where
  "TaskService_updateTaskTags this taskId tagNames = updateTaskTags (tags this) taskId tagNames"

subsection \<open>Delegated custom field methods\<close>

definition TaskService_setCustomFieldValue ::
  "('s, 'e, 'v) TaskService \<Rightarrow> string \<Rightarrow> string \<Rightarrow> 'v \<Rightarrow> ('s, 'e, 'v, bool) io" where
  "TaskService_setCustomFieldValue this taskId fieldId v =
     setCustomFieldValue (customFields this) taskId fieldId v"

definition TaskService_setCustomFieldValues ::
  "('s, 'e, 'v) TaskService \<Rightarrow> string \<Rightarrow> 'v CustomFieldValue list \<Rightarrow> ('s, 'e, 'v, bool) io" where
  "TaskService_setCustomFieldValues this taskId fieldValues =
     setCustomFieldValues (customFields this) taskId fieldValues"

definition TaskService_getCustomFieldValues ::
  "('s, 'e, 'v) TaskService \<Rightarrow> string \<Rightarrow> ('s, 'e, 'v, string \<rightharpoonup> 'v) io" where
  "TaskService_getCustomFieldValues this taskId = getCustomFieldValues (customFields this) taskId"

definition TaskService_getCustomFieldValue ::
  "('s, 'e, 'v) TaskService \<Rightarrow> string \<Rightarrow> string \<Rightarrow> ('s, 'e, 'v, 'v js_property) io" where
  "TaskService_getCustomFieldValue this taskId fieldId =
     getCustomFieldValue (customFields this) taskId fieldId"

section \<open>Task resolution\<close>

text \<open>
  The search module (\<open>task-search.ts\<close>) is not among the sources verified here. Its three
  methods with a stated contract are modelled from section 4.1 of the specification; the
  calls it makes to ClickUp, the tie-break heuristic and its other six methods are
  parameters.
\<close>

record ('s, 'e, 'v) TaskSearchCalls =
  listTasks :: "list_scope \<Rightarrow> ('s, 'e, 'v, 'v ClickUpTask list) remote"
  workspaceTasks :: "('s, 'e, 'v, 'v ClickUpTask list) remote"
  updateTask :: "string \<Rightarrow> 'v UpdateTaskData \<Rightarrow> ('s, 'e, 'v, 'v ClickUpTask) remote"
  disambiguate :: "'v ClickUpTask list \<Rightarrow> 'v ClickUpTask option"

definition flag :: "bool option \<Rightarrow> bool" where
  "flag b = (case b of Some on \<Rightarrow> on | None \<Rightarrow> False)"

definition opt_arg :: "string \<Rightarrow> string option \<Rightarrow> (string \<times> 'v logarg) list" where
  "opt_arg name given = (case given of Some s \<Rightarrow> [(name, LStr s)] | None \<Rightarrow> [])"

definition flag_arg :: "string \<Rightarrow> bool option \<Rightarrow> (string \<times> 'v logarg) list" where
  "flag_arg name given = (case given of Some b \<Rightarrow> [(name, LBool b)] | None \<Rightarrow> [])"

definition find_args :: "FindTasksParams \<Rightarrow> (string \<times> 'v logarg) list" where
  "find_args p =
     opt_arg ''taskId'' (p_taskId p) @ opt_arg ''customTaskId'' (p_customTaskId p)
     @ opt_arg ''taskName'' (p_taskName p) @ opt_arg ''listId'' (p_listId p)
     @ opt_arg ''listName'' (p_listName p)
     @ flag_arg ''allowMultipleMatches'' (p_allowMultipleMatches p)
     @ flag_arg ''useSmartDisambiguation'' (p_useSmartDisambiguation p)
     @ flag_arg ''includeFullDetails'' (p_includeFullDetails p)
     @ flag_arg ''includeListContext'' (p_includeListContext p)
     @ flag_arg ''requireExactMatch'' (p_requireExactMatch p)"

definition lower_char :: "char \<Rightarrow> char" where
  "lower_char c =
     (if 65 \<le> (of_char c :: nat) \<and> (of_char c :: nat) \<le> 90
      then char_of ((of_char c :: nat) + 32) else c)"

fun starts_with :: "string \<Rightarrow> string \<Rightarrow> bool" where
  "starts_with s [] = True"
| "starts_with [] (c # cs) = False"
| "starts_with (x # xs) (c # cs) = (x = c \<and> starts_with xs cs)"

fun contains :: "string \<Rightarrow> string \<Rightarrow> bool" where
  "contains [] part = starts_with [] part"
| "contains (x # xs) part = (starts_with (x # xs) part \<or> contains xs part)"

text \<open>
  Modelled from the spec: the ID a call names (resolution step 1, "if \<open>taskId\<close> or
  \<open>customTaskId\<close> given"); \<open>taskId\<close> is looked at first.
\<close>

definition requested_id :: "FindTasksParams \<Rightarrow> string option" where
  "requested_id p = (case p_taskId p of Some i \<Rightarrow> Some i | None \<Rightarrow> p_customTaskId p)"

text \<open>
  Modelled from the spec: the list a name search is scoped to (step 2, "with a
  \<open>listId\<close>/\<open>listName\<close>"); \<open>listId\<close> is looked at first.
\<close>

definition requested_list :: "FindTasksParams \<Rightarrow> list_scope option" where
  "requested_list p =
     (case p_listId p of
        Some l \<Rightarrow> Some (ListId l)
      | None \<Rightarrow> (case p_listName p of Some n \<Rightarrow> Some (ListName n) | None \<Rightarrow> None))"

text \<open>
  Modelled from the spec: matching within a list (step 2): "scan tasks in the list for an
  exact (case-sensitive) name match; if none, and \<open>requireExactMatch\<close> is false, fall
  back to case-insensitive/substring matching".
\<close>

definition match_in_list :: "bool \<Rightarrow> string \<Rightarrow> 'v ClickUpTask list \<Rightarrow> 'v ClickUpTask list" where
  "match_in_list requireExact name ts =
     (case filter (\<lambda>t. task_name t = name) ts of
        [] \<Rightarrow>
          if requireExact then []
          else filter (\<lambda>t. contains (map lower_char (task_name t)) (map lower_char name)) ts
      | exact # others \<Rightarrow> exact # others)"

text \<open>
  Modelled from the spec: the candidates of a name search. Within a list (step 2) the
  tasks of that list are fetched and matched; without a list (step 3) the search "issues a
  workspace-wide task query and filters client-side by name equality". An error of the
  query is propagated.
\<close>

definition name_candidates ::
  "('s, 'e, 'v) TaskSearchCalls \<Rightarrow> FindTasksParams \<Rightarrow> string
     \<Rightarrow> ('s, 'e, 'v, 'v ClickUpTask list) io" where
  "name_candidates calls p name w =
     (case requested_list p of
        Some scope \<Rightarrow>
          (case call (ListTasksQuery scope) (listTasks calls scope) w of
             (Inr ts, w') \<Rightarrow> (Inr (match_in_list (flag (p_requireExactMatch p)) name ts), w')
           | (Inl err, w') \<Rightarrow> (Inl err, w'))
      | None \<Rightarrow>
          (case call WorkspaceTasksQuery (workspaceTasks calls) w of
             (Inr ts, w') \<Rightarrow> (Inr (filter (\<lambda>t. task_name t = name) ts), w')
           | (Inl err, w') \<Rightarrow> (Inl err, w')))"

text \<open>
  Modelled from the spec: what is made of the candidates (step 4 and "Output"): null if
  nothing matches, the task if one matches; for several matches the sequence when
  \<open>allowMultipleMatches\<close> is set, otherwise the tie-break when
  \<open>useSmartDisambiguation\<close> is set and conclusive, otherwise an Ambiguous error
  enumerating the candidates. A flag left out counts as false.
\<close>

definition select_match ::
  "('s, 'e, 'v) TaskSearchCalls \<Rightarrow> FindTasksParams \<Rightarrow> 'v ClickUpTask list
     \<Rightarrow> ('e, 'v) error + 'v found" where
  "select_match calls p candidates =
     (case candidates of
        [] \<Rightarrow> Inr Null
      | [t] \<Rightarrow> Inr (Single t)
      | t # u # others \<Rightarrow>
          if flag (p_allowMultipleMatches p) then Inr (Many candidates)
          else if flag (p_useSmartDisambiguation p) then
            (case disambiguate calls candidates of
               Some chosen \<Rightarrow> Inr (Single chosen)
             | None \<Rightarrow> Inl (Ambiguous candidates))
          else Inl (Ambiguous candidates))"

text \<open>
  Modelled from the spec: \<open>findTasks\<close> of the search module (section 4.1). The inputs are
  logged first (section 7). Step 1: an ID is resolved by a get-by-id call, \<open>getTask\<close> of
  the core, and nothing else is done; the call's error, NotFound for an ID that does not
  exist, is the method's error. Steps 2 to 4: otherwise a name is searched for and the
  candidates are selected from. A call that names neither an ID nor a name fails with a
  Validation error ("missing required identifying field"). The result-shaping flags
  \<open>includeFullDetails\<close> and \<open>includeListContext\<close> (step 5) do not change which task
  is resolved and are not modelled.
\<close>

definition spec_findTasks ::
  "('s, 'e, 'v) TaskServiceCore \<Rightarrow> ('s, 'e, 'v) TaskSearchCalls \<Rightarrow> FindTasksParams
     \<Rightarrow> ('s, 'e, 'v, 'v found) io" where
  "spec_findTasks c calls p w =
     (let w1 = logOperation ''findTasks'' (find_args p) w
      in case requested_id p of
           Some i \<Rightarrow>
             (case core_getTask c i w1 of
                (Inr t, w2) \<Rightarrow> (Inr (Single t), w2)
              | (Inl err, w2) \<Rightarrow> (Inl err, w2))
         | None \<Rightarrow>
             (case p_taskName p of
                None \<Rightarrow> (Inl (Validation ''findTasks: no task identifier given''), w1)
              | Some name \<Rightarrow>
                  (case name_candidates calls p name w1 of
                     (Inr candidates, w2) \<Rightarrow> (select_match calls p candidates, w2)
                   | (Inl err, w2) \<Rightarrow> (Inl err, w2))))"

text \<open>
  Modelled from the spec: \<open>findTaskByNameGlobally\<close> of the search module: it "issues a
  workspace-wide task query and filters client-side by name equality", and "with no task
  matching the name returns null, not an error". Of several tasks with the name the first
  in the order of the query is returned; an error of the query is propagated.
\<close>

definition spec_findTaskByNameGlobally ::
  "('s, 'e, 'v) TaskSearchCalls \<Rightarrow> string \<Rightarrow> ('s, 'e, 'v, 'v ClickUpTask option) io" where
  "spec_findTaskByNameGlobally calls name w =
     (let w1 = logOperation ''findTaskByNameGlobally'' [(''taskName'', LStr name)] w
      in case call WorkspaceTasksQuery (workspaceTasks calls) w1 of
           (Inr ts, w2) \<Rightarrow> (Inr (find (\<lambda>t. task_name t = name) ts), w2)
         | (Inl err, w2) \<Rightarrow> (Inl err, w2))"

text \<open>
  Modelled from the spec: \<open>updateTaskByName\<close> of the search module: it "composes
  resolution (case 2 above, exact match expected) with a subsequent update call; if
  resolution yields zero or >1 matches, the update is not attempted and the resolution
  error is surfaced": NotFound for no match, Ambiguous for several.
\<close>

definition spec_updateTaskByName ::
  "('s, 'e, 'v) TaskSearchCalls \<Rightarrow> string \<Rightarrow> string \<Rightarrow> 'v UpdateTaskData
     \<Rightarrow> ('s, 'e, 'v, 'v ClickUpTask) io" where
  "spec_updateTaskByName calls listId name updateData w =
     (let w1 = logOperation ''updateTaskByName''
                 [(''listId'', LStr listId), (''taskName'', LStr name)] w
      in case call (ListTasksQuery (ListId listId)) (listTasks calls (ListId listId)) w1 of
           (Inr ts, w2) \<Rightarrow>
             (case filter (\<lambda>t. task_name t = name) ts of
                [] \<Rightarrow> (Inl (NotFound name), w2)
              | [t] \<Rightarrow> call (UpdateTask (task_id t)) (updateTask calls (task_id t) updateData) w2
              | t # u # others \<Rightarrow> (Inl (Ambiguous (t # u # others)), w2))
         | (Inl err, w2) \<Rightarrow> (Inl err, w2))"

text \<open>
  The search module with the three modelled methods; the other six are those of
  \<open>rest\<close>.
\<close>

definition specified_search ::
  "('s, 'e, 'v) TaskServiceCore \<Rightarrow> ('s, 'e, 'v) TaskSearchCalls \<Rightarrow> ('s, 'e, 'v) TaskServiceSearch
     \<Rightarrow> ('s, 'e, 'v) TaskServiceSearch" where
  "specified_search c calls rest =
     rest\<lparr>findTasks := spec_findTasks c calls,
          findTaskByNameGlobally := spec_findTaskByNameGlobally calls,
          updateTaskByName := spec_updateTaskByName calls\<rparr>"

section \<open>Process entry point\<close>

text \<open>
  \<open>main\<close> runs \<open>bootstrap\<close>, which is imported from \<open>bootstrap.js\<close> and is a
  parameter here: it acts on the part \<open>env\<close> of the process that \<open>main\<close> does not
  touch, and resolves or rejects. The process records what was written to the console, how
  often \<open>bootstrap\<close> was started, and the exit code once \<open>process.exit\<close> was called.
\<close>

datatype 'x console_arg = Text string | Thrown 'x

record ('p, 'x) process =
  env :: 'p
  stdout :: "string list"
  stderr :: "'x console_arg list"
  bootstrap_calls :: nat
  exit_code :: "int option"

definition console_log :: "string \<Rightarrow> ('p, 'x) process \<Rightarrow> ('p, 'x) process" where
  "console_log line p = p\<lparr>stdout := stdout p @ [line]\<rparr>"

definition console_error :: "'x console_arg \<Rightarrow> ('p, 'x) process \<Rightarrow> ('p, 'x) process" where
  "console_error arg p = p\<lparr>stderr := stderr p @ [arg]\<rparr>"

definition process_exit :: "int \<Rightarrow> ('p, 'x) process \<Rightarrow> ('p, 'x) process" where
  "process_exit code p = p\<lparr>exit_code := Some code\<rparr>"

definition run_bootstrap ::
  "('p \<Rightarrow> ('x + unit) \<times> 'p) \<Rightarrow> ('p, 'x) process \<Rightarrow> ('x + unit) \<times> ('p, 'x) process" where
  "run_bootstrap bootstrap p =
     (case bootstrap (env p) of
        (r, env') \<Rightarrow> (r, p\<lparr>env := env', bootstrap_calls := Suc (bootstrap_calls p)\<rparr>))"

definition main :: "('p \<Rightarrow> ('x + unit) \<times> 'p) \<Rightarrow> ('p, 'x) process \<Rightarrow> ('p, 'x) process" where
  "main bootstrap p =
     (let p1 = console_log ''--> [DEBUG] Attempting to bootstrap the server...'' p
      in case run_bootstrap bootstrap p1 of
           (Inr _, p2) \<Rightarrow>
             console_log
               ''--> [DEBUG] Bootstrap completed successfully. The server should be running.'' p2
         | (Inl err, p2) \<Rightarrow>
             process_exit 1
               (console_error (Thrown err)
                  (console_error (Text ''!!! A FATAL ERROR OCCURRED DURING BOOTSTRAP !!!'') p2)))"

section \<open>An in-memory ClickUp for concrete runs\<close>

text \<open>
  A small stand-in for the task core, used to run the methods on concrete inputs. The
  remote state maps the URL of a custom field to the number stored there. A POST to the
  field \<open>locked\<close> of task \<open>t1\<close> is refused; task \<open>t1\<close> carries the stored fields,
  task \<open>t2\<close> has no \<open>custom_fields\<close> attribute, and any other ID is not found. Its
  \<open>handleError\<close> puts the message in front of the messages of the error it wraps.
\<close>

definition memory_post :: "string \<Rightarrow> nat payload \<Rightarrow> ((string \<times> nat) list, string list, nat, unit) remote" where
  "memory_post url body s =
     (if url = ''/task/t1/field/locked'' then (Inl (Upstream [''HTTP 400'']), s)
      else (Inr (), (url, case body of Payload v \<Rightarrow> v) # s))"

definition memory_getTask :: "string \<Rightarrow> ((string \<times> nat) list, string list, nat, nat ClickUpTask) remote" where
  "memory_getTask taskId s =
     (if taskId = ''t1'' then
        (Inr \<lparr>task_id = ''t1'', task_name = ''Foo'',
              custom_fields = Some (map_of (map (\<lambda>fieldId. (fieldId, the (map_of s (field_url ''t1'' fieldId))))
                                            (filter (\<lambda>fieldId. map_of s (field_url ''t1'' fieldId) \<noteq> None)
                                               [''a'', ''b'', ''c'', ''locked''])))\<rparr>, s)
      else if taskId = ''t2'' then
        (Inr \<lparr>task_id = ''t2'', task_name = ''Bar'', custom_fields = None\<rparr>, s)
      else (Inl (NotFound taskId), s))"

definition memory_handleError :: "(string list, nat) error \<Rightarrow> string \<Rightarrow> (string list, nat) error" where
  "memory_handleError err msg =
     Upstream (msg # (case err of Upstream msgs \<Rightarrow> msgs | JsError m \<Rightarrow> [m]
                        | NotFound m \<Rightarrow> [m] | _ \<Rightarrow> []))"

definition memory_core :: "((string \<times> nat) list, string list, nat) TaskServiceCore" where
  "memory_core =
     \<lparr>client_post = memory_post, getTask = memory_getTask, handleError = memory_handleError\<rparr>"

definition memory_fields :: "((string \<times> nat) list, string list, nat) TaskServiceCustomFields" where
  "memory_fields = \<lparr>core = memory_core\<rparr>"

definition three_fields :: "nat CustomFieldValue list" where
  "three_fields =
     [\<lparr>field_id = ''a'', field_value = 1\<rparr>, \<lparr>field_id = ''locked'', field_value = 2\<rparr>,
      \<lparr>field_id = ''c'', field_value = 3\<rparr>]"

definition fresh :: "((string \<times> nat) list, nat) world" where
  "fresh = \<lparr>server = [], trace = []\<rparr>"

text \<open>
  For task resolution the stand-in knows one list, \<open>L1\<close>, which is also the whole
  workspace: two tasks named \<open>Foo\<close> and one named \<open>Bar\<close>. An update renames the task
  and leaves a mark in the remote state; the tie-break is never conclusive. The methods
  with no contract here are unavailable.
\<close>

definition memory_tasks :: "nat ClickUpTask list" where
  "memory_tasks =
     [\<lparr>task_id = ''t1'', task_name = ''Foo'', custom_fields = None\<rparr>,
      \<lparr>task_id = ''t3'', task_name = ''Foo'', custom_fields = None\<rparr>,
      \<lparr>task_id = ''t2'', task_name = ''Bar'', custom_fields = None\<rparr>]"

definition memory_calls :: "((string \<times> nat) list, string list, nat) TaskSearchCalls" where
  "memory_calls =
     \<lparr>listTasks = (\<lambda>scope s.
        (case scope of
           ListId l \<Rightarrow> if l = ''L1'' then Inr memory_tasks else Inl (Upstream [''HTTP 404''])
         | ListName n \<Rightarrow> Inl (Upstream [''HTTP 404'']), s)),
      workspaceTasks = (\<lambda>s. (Inr memory_tasks, s)),
      updateTask = (\<lambda>taskId updateData s.
        (Inr \<lparr>task_id = taskId, task_name = ''Renamed'', custom_fields = None\<rparr>,
         (''/task/'' @ taskId, 0) # s)),
      disambiguate = (\<lambda>candidates. None)\<rparr>"

definition unavailable :: "((string \<times> nat) list, string list, nat, 'a) io" where
  "unavailable w = (Inl (Upstream [''unavailable'']), w)"

definition memory_search_rest :: "((string \<times> nat) list, string list, nat) TaskServiceSearch" where
  "memory_search_rest =
     \<lparr>findTaskByName = (\<lambda>listId name. unavailable),
      getWorkspaceTasks = (\<lambda>filters. unavailable),
      getTaskSummaries = (\<lambda>filters. unavailable),
      getListViews = (\<lambda>listId w. (Inr (if listId = ''L1'' then Some ''view-1'' else None), w)),
      getTasksFromView = (\<lambda>viewId filters w.
        (Inr (if filters ''archived'' = None then memory_tasks else []), w)),
      getTaskDetails = (\<lambda>filters. unavailable),
      updateTaskByName = (\<lambda>listId name updateData. unavailable),
      findTaskByNameGlobally = (\<lambda>name. unavailable),
      findTasks = (\<lambda>params. unavailable)\<rparr>"

definition memory_service :: "((string \<times> nat) list, string list, nat) TaskService" where
  "memory_service =
     \<lparr>client_post = memory_post, getTask = memory_getTask, handleError = memory_handleError,
      search = specified_search memory_core memory_calls memory_search_rest,
      attachments =
        \<lparr>uploadTaskAttachment = (\<lambda>taskId fileData fileName. unavailable),
         uploadTaskAttachmentFromUrl = (\<lambda>taskId fileUrl fileName authHeader. unavailable)\<rparr>,
      comments =
        \<lparr>getTaskComments = (\<lambda>taskId start startId w. (Inr [], w)),
         createTaskComment = (\<lambda>taskId commentText notifyAll assignee. unavailable)\<rparr>,
      tags =
        \<lparr>addTagToTask = (\<lambda>taskId tagName w. (Inr True, w)),
         removeTagFromTask = (\<lambda>taskId tagName w. (Inr True, w)),
         getTaskTags = (\<lambda>taskId w. (Inr [], w)),
         updateTaskTags = (\<lambda>taskId tagNames w. (Inr True, w))\<rparr>,
      customFields = memory_fields\<rparr>"

definition no_params :: FindTasksParams where
  "no_params =
     \<lparr>p_taskId = None, p_customTaskId = None, p_taskName = None, p_listId = None,
      p_listName = None, p_allowMultipleMatches = None, p_useSmartDisambiguation = None,
      p_includeFullDetails = None, p_includeListContext = None, p_requireExactMatch = None\<rparr>"



section \<open>Properties of the custom fields module\<close>

lemma posts_of_append: "posts_of (xs @ ys) = posts_of xs @ posts_of ys"
  by (simp add: posts_of_def map_filter_def)

lemma posts_of_simps:
  "posts_of [] = []"
  "posts_of (HttpPost u p # evs) = (u, p) # posts_of evs"
  "posts_of (LogOperation n a # evs) = posts_of evs"
  "posts_of (GetTask t # evs) = posts_of evs"
  by (simp_all add: posts_of_def map_filter_def)

lemma setCustomFieldValue_run:
  "setCustomFieldValue this taskId fieldId v w =
     (let evs = trace w @ [LogOperation ''setCustomFieldValue''
                   [(''taskId'', LStr taskId), (''fieldId'', LStr fieldId), (''value'', LAny v)],
                 HttpPost (field_url taskId fieldId) (Payload v)]
      in case client_post (core this) (field_url taskId fieldId) (Payload v) (server w) of
           (Inr u, s') \<Rightarrow> (Inr True, \<lparr>server = s', trace = evs\<rparr>)
         | (Inl err, s') \<Rightarrow>
             (Inl (handleError (core this) err (set_field_failed fieldId)), \<lparr>server = s', trace = evs\<rparr>))"
  by (simp add: setCustomFieldValue_def makeRequest_def core_post_def call_def logOperation_def
        Let_def split: prod.splits sum.splits)

text \<open>
  C7. For every task ID, field ID and value, \<open>setCustomFieldValue\<close> issues exactly one
  POST, to \<open>/task/<taskId>/field/<fieldId>\<close> with the body \<open>{ value }\<close>. When
  that call succeeds the method returns \<open>true\<close>; when it fails the method rejects with
  what \<open>handleError\<close> makes of the failure and the message naming the field. It never
  returns \<open>false\<close>, and it changes the remote state only through that one call.
\<close>

theorem setCustomFieldValue_one_post:
  \<open>fst (setCustomFieldValue this taskId fieldId v w) =
     (case fst (client_post (core this) (''/task/'' @ taskId @ ''/field/'' @ fieldId) (Payload v) (server w)) of
        Inr response \<Rightarrow> Inr True
      | Inl err \<Rightarrow>
          Inl (handleError (core this) err (''Failed to set custom field "'' @ fieldId @ ''" value'')))
   \<and> fst (setCustomFieldValue this taskId fieldId v w) \<noteq> Inr False
   \<and> posts_of (trace (snd (setCustomFieldValue this taskId fieldId v w))) =
       posts_of (trace w) @ [(''/task/'' @ taskId @ ''/field/'' @ fieldId, Payload v)]
   \<and> server (snd (setCustomFieldValue this taskId fieldId v w)) =
       snd (client_post (core this) (''/task/'' @ taskId @ ''/field/'' @ fieldId) (Payload v) (server w))\<close>
  by (simp add: setCustomFieldValue_run Let_def field_url_def set_field_failed_def
        posts_of_append posts_of_simps split: prod.splits sum.splits)

theorem setCustomFieldValue_one_post_witness:
  \<open>fst (setCustomFieldValue memory_fields ''t1'' ''a'' 7 fresh) = Inr True
   \<and> fst (setCustomFieldValue memory_fields ''t1'' ''locked'' 7 fresh) =
       Inl (Upstream [''Failed to set custom field "locked" value'', ''HTTP 400''])
   \<and> posts_of (trace (snd (setCustomFieldValue memory_fields ''t1'' ''locked'' 7 fresh))) =
       [(''/task/t1/field/locked'', Payload 7)]
   \<and> server (snd (setCustomFieldValue memory_fields ''t1'' ''a'' 7 fresh)) = [(''/task/t1/field/a'', 7)]\<close>
  using setCustomFieldValue_one_post [of memory_fields "''t1''" "''a''" 7 fresh]
    setCustomFieldValue_one_post [of memory_fields "''t1''" "''locked''" 7 fresh]
  by (simp add: memory_fields_def memory_core_def memory_post_def memory_handleError_def
        fresh_def posts_of_simps)

lemma getCustomFieldValues_run:
  "getCustomFieldValues this taskId w =
     (let evs = trace w @ [LogOperation ''getCustomFieldValues'' [(''taskId'', LStr taskId)],
                 GetTask taskId]
      in case getTask (core this) taskId (server w) of
           (Inr task, s') \<Rightarrow>
             (Inr (case custom_fields task of Some m \<Rightarrow> m | None \<Rightarrow> Map.empty),
              \<lparr>server = s', trace = evs\<rparr>)
         | (Inl err, s') \<Rightarrow>
             (Inl (handleError (core this) err ''Failed to get custom field values''),
              \<lparr>server = s', trace = evs\<rparr>))"
  by (simp add: getCustomFieldValues_def core_getTask_def call_def logOperation_def
        Let_def split: prod.splits sum.splits)

text \<open>
  C8. For every task ID, \<open>getCustomFieldValues\<close> fetches the task with one call of
  \<open>getTask\<close> and returns the task's custom-fields mapping. When the fetched task has no
  \<open>custom_fields\<close> attribute it returns the empty mapping: it neither fails nor returns
  \<open>undefined\<close>. When \<open>getTask\<close> fails, the method rejects with what \<open>handleError\<close>
  makes of that failure.
\<close>

theorem getCustomFieldValues_mapping_or_empty:
  "fst (getCustomFieldValues this taskId w) =
     (case fst (getTask (core this) taskId (server w)) of
        Inr task \<Rightarrow> Inr (case custom_fields task of Some m \<Rightarrow> m | None \<Rightarrow> Map.empty)
      | Inl err \<Rightarrow> Inl (handleError (core this) err ''Failed to get custom field values''))
   \<and> (\<forall>task. fst (getTask (core this) taskId (server w)) = Inr task \<and> custom_fields task = None
         \<longrightarrow> fst (getCustomFieldValues this taskId w) = Inr Map.empty)
   \<and> trace (snd (getCustomFieldValues this taskId w)) =
       trace w @ [LogOperation ''getCustomFieldValues'' [(''taskId'', LStr taskId)], GetTask taskId]
   \<and> server (snd (getCustomFieldValues this taskId w)) =
       snd (getTask (core this) taskId (server w))"
  by (simp add: getCustomFieldValues_run Let_def split: prod.splits sum.splits)

theorem getCustomFieldValues_mapping_or_empty_witness:
  "fst (memory_getTask ''t2'' []) =
     Inr \<lparr>task_id = ''t2'', task_name = ''Bar'', custom_fields = None\<rparr>
   \<and> fst (getCustomFieldValues memory_fields ''t2'' fresh) = Inr Map.empty
   \<and> trace (snd (getCustomFieldValues memory_fields ''t2'' fresh)) =
       [LogOperation ''getCustomFieldValues'' [(''taskId'', LStr ''t2'')], GetTask ''t2'']"
  using getCustomFieldValues_mapping_or_empty [of memory_fields "''t2''" fresh]
  by (simp add: memory_fields_def memory_core_def memory_getTask_def fresh_def)

subsection \<open>Reading one field\<close>

lemma getCustomFieldValue_run:
  "getCustomFieldValue this taskId fieldId w =
     (case getCustomFieldValues this taskId
             (logOperation ''getCustomFieldValue''
                [(''taskId'', LStr taskId), (''fieldId'', LStr fieldId)] w) of
        (Inr m, w2) \<Rightarrow>
          (case m fieldId of
             Some v \<Rightarrow> (Inr (Own v), w2)
           | None \<Rightarrow>
               if fieldId \<in> set Object_prototype_keys then (Inr (Inherited fieldId), w2)
               else (Inl (handleError (core this)
                            (handleError (core this) (JsError (field_not_found fieldId))
                               (field_not_found fieldId))
                            (get_field_failed fieldId)), w2))
      | (Inl err, w2) \<Rightarrow> (Inl (handleError (core this) err (get_field_failed fieldId)), w2))"
  by (simp add: getCustomFieldValue_def js_in_def js_get_def Let_def
        split: prod.splits sum.splits option.splits)

text \<open>
  A field ID that is neither a key of the mapping nor a property name of
  \<open>Object.prototype\<close> is rejected, with the message that the field was not found on the
  task wrapped in the message that reading the field failed.
\<close>

lemma getCustomFieldValue_absent_key:
  assumes "fst (getCustomFieldValues this taskId
             (logOperation ''getCustomFieldValue''
                [(''taskId'', LStr taskId), (''fieldId'', LStr fieldId)] w)) = Inr m"
      and "m fieldId = None" and "fieldId \<notin> set Object_prototype_keys"
  shows "fst (getCustomFieldValue this taskId fieldId w) =
           Inl (handleError (core this)
                  (handleError (core this) (JsError (field_not_found fieldId))
                     (field_not_found fieldId))
                  (get_field_failed fieldId))"
  using assms
  by (cases "getCustomFieldValues this taskId
               (logOperation ''getCustomFieldValue''
                  [(''taskId'', LStr taskId), (''fieldId'', LStr fieldId)] w)")
     (simp add: getCustomFieldValue_run)

text \<open>
  C2. The claim is that \<open>getCustomFieldValue\<close> fails for every field ID that is absent
  from the task's custom-fields mapping. The code decides with \<open>fieldId in customFields\<close>,
  which is also true of the properties every object inherits. For task \<open>t2\<close>, whose
  mapping is empty, and the field ID \<open>constructor\<close> the method resolves, with the
  inherited property, where its documentation promises a \<open>ClickUpServiceError\<close>.
\<close>

theorem getCustomFieldValue_inherited_key:
  "fst (getCustomFieldValues memory_fields ''t2'' fresh) = Inr Map.empty
   \<and> fst (getCustomFieldValue memory_fields ''t2'' ''constructor'' fresh) =
       Inr (Inherited ''constructor'')"
  by (simp add: getCustomFieldValue_run getCustomFieldValues_run logOperation_def
        memory_fields_def memory_core_def memory_getTask_def fresh_def Object_prototype_keys_def)

subsection \<open>Setting several fields\<close>







section \<open>Properties of the entry point\<close>

text \<open>
  C9. If \<open>bootstrap\<close> rejects, \<open>main\<close> reports the error on the error stream and
  ends the process with exit code 1; \<open>bootstrap\<close> has been started once and is not
  started again. If \<open>bootstrap\<close> resolves, \<open>main\<close> does not exit the process: the exit
  status is what it was.
\<close>

theorem main_exits_with_1_on_failure:
  "(\<forall>err env'. bootstrap (env p) = (Inl err, env') \<longrightarrow>
       exit_code (main bootstrap p) = Some 1
     \<and> bootstrap_calls (main bootstrap p) = Suc (bootstrap_calls p)
     \<and> stderr (main bootstrap p) =
         stderr p @ [Text ''!!! A FATAL ERROR OCCURRED DURING BOOTSTRAP !!!'', Thrown err])
   \<and> (\<forall>env'. bootstrap (env p) = (Inr (), env') \<longrightarrow>
       exit_code (main bootstrap p) = exit_code p
     \<and> bootstrap_calls (main bootstrap p) = Suc (bootstrap_calls p)
     \<and> stderr (main bootstrap p) = stderr p)"
  by (simp add: main_def run_bootstrap_def console_log_def console_error_def process_exit_def
        Let_def)

theorem main_exits_with_1_on_failure_witness:
  "exit_code (main (\<lambda>e. (Inl ''port in use'', e))
       \<lparr>env = (), stdout = [], stderr = [], bootstrap_calls = 0, exit_code = None\<rparr>) = Some 1
   \<and> bootstrap_calls (main (\<lambda>e. (Inl ''port in use'', e))
       \<lparr>env = (), stdout = [], stderr = [], bootstrap_calls = 0, exit_code = None\<rparr>) = Suc 0
   \<and> exit_code (main (\<lambda>e. (Inr (), e) :: (string + unit) \<times> unit)
       \<lparr>env = (), stdout = [], stderr = [], bootstrap_calls = 0, exit_code = None\<rparr>) = None"
  using main_exits_with_1_on_failure
          [of "\<lambda>e. (Inl ''port in use'', e)"
              "\<lparr>env = (), stdout = [], stderr = [], bootstrap_calls = 0, exit_code = None\<rparr>"]
        main_exits_with_1_on_failure
          [of "\<lambda>e. (Inr (), e) :: (string + unit) \<times> unit"
              "\<lparr>env = (), stdout = [], stderr = [], bootstrap_calls = 0, exit_code = None\<rparr>"]
  by simp

section \<open>Properties of the facade\<close>

text \<open>
  C10. Every delegated method of the facade is the method of the same name of the composed
  service, applied to the same arguments: its result, its error and its effect on the
  world are those of that method. Where \<open>filters\<close> is left out, the facade passes
  \<open>{}\<close>.
\<close>

theorem TaskService_delegates:
  "TaskService_findTaskByName this listId taskName = findTaskByName (search this) listId taskName
   \<and> TaskService_getWorkspaceTasks this (Some filters) = getWorkspaceTasks (search this) filters
   \<and> TaskService_getWorkspaceTasks this None = getWorkspaceTasks (search this) Map.empty
   \<and> TaskService_getTaskSummaries this (Some filters) = getTaskSummaries (search this) filters
   \<and> TaskService_getTaskSummaries this None = getTaskSummaries (search this) Map.empty
   \<and> TaskService_getListViews this listId = getListViews (search this) listId
   \<and> TaskService_getTasksFromView this viewId (Some filters) =
       getTasksFromView (search this) viewId filters
   \<and> TaskService_getTasksFromView this viewId None = getTasksFromView (search this) viewId Map.empty
   \<and> TaskService_getTaskDetails this (Some filters) = getTaskDetails (search this) filters
   \<and> TaskService_getTaskDetails this None = getTaskDetails (search this) Map.empty
   \<and> TaskService_updateTaskByName this listId taskName updateData =
       updateTaskByName (search this) listId taskName updateData
   \<and> TaskService_findTaskByNameGlobally this taskName = findTaskByNameGlobally (search this) taskName
   \<and> TaskService_findTasks this params = findTasks (search this) params
   \<and> TaskService_uploadTaskAttachment this taskId fileData fileName =
       uploadTaskAttachment (attachments this) taskId fileData fileName
   \<and> TaskService_uploadTaskAttachmentFromUrl this taskId fileUrl optFileName authHeader =
       uploadTaskAttachmentFromUrl (attachments this) taskId fileUrl optFileName authHeader
   \<and> TaskService_getTaskComments this taskId start startId =
       getTaskComments (comments this) taskId start startId
   \<and> TaskService_createTaskComment this taskId commentText notifyAll assignee =
       createTaskComment (comments this) taskId commentText notifyAll assignee
   \<and> TaskService_addTagToTask this taskId tagName = addTagToTask (tags this) taskId tagName
   \<and> TaskService_removeTagFromTask this taskId tagName = removeTagFromTask (tags this) taskId tagName
   \<and> TaskService_getTaskTags this taskId = getTaskTags (tags this) taskId
   \<and> TaskService_updateTaskTags this taskId tagNames = updateTaskTags (tags this) taskId tagNames
   \<and> TaskService_setCustomFieldValue this taskId fieldId v =
       setCustomFieldValue (customFields this) taskId fieldId v
   \<and> TaskService_setCustomFieldValues this taskId fieldValues =
       setCustomFieldValues (customFields this) taskId fieldValues
   \<and> TaskService_getCustomFieldValues this taskId = getCustomFieldValues (customFields this) taskId
   \<and> TaskService_getCustomFieldValue this taskId fieldId =
       getCustomFieldValue (customFields this) taskId fieldId"
  by (simp add: TaskService_findTaskByName_def TaskService_getWorkspaceTasks_def
        TaskService_getTaskSummaries_def TaskService_getListViews_def
        TaskService_getTasksFromView_def TaskService_getTaskDetails_def
        TaskService_updateTaskByName_def TaskService_findTaskByNameGlobally_def
        TaskService_findTasks_def TaskService_uploadTaskAttachment_def
        TaskService_uploadTaskAttachmentFromUrl_def TaskService_getTaskComments_def
        TaskService_createTaskComment_def TaskService_addTagToTask_def
        TaskService_removeTagFromTask_def TaskService_getTaskTags_def
        TaskService_updateTaskTags_def TaskService_setCustomFieldValue_def
        TaskService_setCustomFieldValues_def TaskService_getCustomFieldValues_def
        TaskService_getCustomFieldValue_def filters_or_default_def)


theorem TaskService_delegates_witness:
  "TaskService_setCustomFieldValues memory_service ''t1'' three_fields fresh =
     setCustomFieldValues memory_fields ''t1'' three_fields fresh
   \<and> TaskService_getListViews memory_service ''L1'' fresh = (Inr (Some ''view-1''), fresh)
   \<and> TaskService_getTasksFromView memory_service ''view-1'' None fresh = (Inr memory_tasks, fresh)
   \<and> TaskService_getTasksFromView memory_service ''view-1'' (Some [''archived'' \<mapsto> 1]) fresh =
       (Inr [], fresh)"
  using TaskService_delegates [where this = memory_service and taskId = "''t1''"
          and fieldValues = three_fields and listId = "''L1''" and viewId = "''view-1''"
          and filters = "[''archived'' \<mapsto> 1]"]
  by (simp add: memory_service_def specified_search_def memory_search_rest_def)

section \<open>Properties of task resolution\<close>

lemma search_of_specified [simp]:
  "findTasks (specified_search c calls rest) = spec_findTasks c calls"
  "findTaskByNameGlobally (specified_search c calls rest) = spec_findTaskByNameGlobally calls"
  "updateTaskByName (specified_search c calls rest) = spec_updateTaskByName calls"
  by (simp_all add: specified_search_def)

text \<open>
  C3. When \<open>taskId\<close>, or else \<open>customTaskId\<close>, is given, \<open>findTasks\<close> resolves the
  task by one get-by-id call and makes no other call: no list and no workspace is searched,
  whatever \<open>taskName\<close> and the other parameters are. The task that call returns is the
  result, and when that call fails, as it does with NotFound for an ID that does not exist,
  its error is the method's error.
\<close>

theorem findTasks_by_id_short_circuits:
  assumes "p_taskId p = Some i \<or> (p_taskId p = None \<and> p_customTaskId p = Some i)"
  shows "fst (TaskService_findTasks (this\<lparr>search := specified_search c calls rest\<rparr>) p w) =
           (case fst (getTask c i (server w)) of
              Inr t \<Rightarrow> Inr (Single t)
            | Inl err \<Rightarrow> Inl err)
         \<and> trace (snd (TaskService_findTasks (this\<lparr>search := specified_search c calls rest\<rparr>) p w)) =
             trace w @ [LogOperation ''findTasks'' (find_args p), GetTask i]
         \<and> server (snd (TaskService_findTasks (this\<lparr>search := specified_search c calls rest\<rparr>) p w)) =
             snd (getTask c i (server w))"
proof -
  from assms have "requested_id p = Some i"
    by (auto simp: requested_id_def)
  then show ?thesis
    by (simp add: TaskService_findTasks_def spec_findTasks_def core_getTask_def call_def
          logOperation_def Let_def split: prod.splits sum.splits)
qed

lemma memory_service_search:
  "memory_service\<lparr>search := specified_search memory_core memory_calls memory_search_rest\<rparr> = memory_service"
  by (simp add: memory_service_def)

theorem findTasks_by_id_short_circuits_witness:
  "fst (TaskService_findTasks memory_service
          (no_params\<lparr>p_taskId := Some ''t2'', p_taskName := Some ''Foo''\<rparr>) fresh) =
     Inr (Single \<lparr>task_id = ''t2'', task_name = ''Bar'', custom_fields = None\<rparr>)
   \<and> trace (snd (TaskService_findTasks memory_service
          (no_params\<lparr>p_taskId := Some ''t2'', p_taskName := Some ''Foo''\<rparr>) fresh)) =
       [LogOperation ''findTasks'' [(''taskId'', LStr ''t2''), (''taskName'', LStr ''Foo'')],
        GetTask ''t2'']
   \<and> fst (TaskService_findTasks memory_service
          (no_params\<lparr>p_customTaskId := Some ''DEV-404'', p_taskName := Some ''Foo''\<rparr>) fresh) =
       Inl (NotFound ''DEV-404'')"
proof -
  have a: "p_taskId (no_params\<lparr>p_taskId := Some ''t2'', p_taskName := Some ''Foo''\<rparr>) = Some ''t2''
           \<or> (p_taskId (no_params\<lparr>p_taskId := Some ''t2'', p_taskName := Some ''Foo''\<rparr>) = None
              \<and> p_customTaskId (no_params\<lparr>p_taskId := Some ''t2'', p_taskName := Some ''Foo''\<rparr>) = Some ''t2'')"
    by simp
  have b: "p_taskId (no_params\<lparr>p_customTaskId := Some ''DEV-404'', p_taskName := Some ''Foo''\<rparr>) = Some ''DEV-404''
           \<or> (p_taskId (no_params\<lparr>p_customTaskId := Some ''DEV-404'', p_taskName := Some ''Foo''\<rparr>) = None
              \<and> p_customTaskId (no_params\<lparr>p_customTaskId := Some ''DEV-404'', p_taskName := Some ''Foo''\<rparr>) = Some ''DEV-404'')"
    by (simp add: no_params_def)
  show ?thesis
    using findTasks_by_id_short_circuits [OF a, where this = memory_service and c = memory_core
        and calls = memory_calls and rest = memory_search_rest and w = fresh,
        unfolded memory_service_search]
      findTasks_by_id_short_circuits [OF b, where this = memory_service and c = memory_core
        and calls = memory_calls and rest = memory_search_rest and w = fresh,
        unfolded memory_service_search]
    by (simp add: memory_core_def memory_getTask_def fresh_def
          find_args_def opt_arg_def flag_arg_def no_params_def)
qed

lemma two_or_more: "2 \<le> length xs \<Longrightarrow> \<exists>t u others. xs = t # u # others"
  by (cases xs; cases "tl xs") auto

text \<open>
  C4. Let no ID be given, a name be given, and \<open>allowMultipleMatches\<close> and
  \<open>useSmartDisambiguation\<close> both be false. When the tasks the list query returns hold two
  or more with that exact name, \<open>findTasks\<close> fails with an Ambiguous error that lists
  exactly those tasks, in the order of the query; so it does when none has the exact name,
  \<open>requireExactMatch\<close> is not set and two or more match loosely; and so it does for the
  workspace query when no list is given. In each case the query is the only call made: no
  task is picked.
\<close>

theorem findTasks_ambiguous:
  assumes "p_taskId p = None" and "p_customTaskId p = None" and "p_taskName p = Some name"
      and "p_allowMultipleMatches p = Some False"
      and "p_useSmartDisambiguation p = Some False"
  shows "(\<forall>l scope ts s1.
            ((p_listId p = Some l \<and> scope = ListId l)
             \<or> (p_listId p = None \<and> p_listName p = Some l \<and> scope = ListName l))
            \<and> listTasks calls scope (server w) = (Inr ts, s1)
            \<and> 2 \<le> length (filter (\<lambda>t. task_name t = name) ts)
          \<longrightarrow> TaskService_findTasks (this\<lparr>search := specified_search c calls rest\<rparr>) p w =
                (Inl (Ambiguous (filter (\<lambda>t. task_name t = name) ts)),
                 \<lparr>server = s1,
                  trace = trace w @ [LogOperation ''findTasks'' (find_args p),
                                     ListTasksQuery scope]\<rparr>))
         \<and> (\<forall>l scope ts s1.
            ((p_listId p = Some l \<and> scope = ListId l)
             \<or> (p_listId p = None \<and> p_listName p = Some l \<and> scope = ListName l))
            \<and> listTasks calls scope (server w) = (Inr ts, s1)
            \<and> filter (\<lambda>t. task_name t = name) ts = []
            \<and> p_requireExactMatch p \<noteq> Some True
            \<and> 2 \<le> length (filter (\<lambda>t. contains (map lower_char (task_name t))
                                              (map lower_char name)) ts)
          \<longrightarrow> TaskService_findTasks (this\<lparr>search := specified_search c calls rest\<rparr>) p w =
                (Inl (Ambiguous (filter (\<lambda>t. contains (map lower_char (task_name t))
                                                 (map lower_char name)) ts)),
                 \<lparr>server = s1,
                  trace = trace w @ [LogOperation ''findTasks'' (find_args p),
                                     ListTasksQuery scope]\<rparr>))
         \<and> (\<forall>ts s1.
            p_listId p = None \<and> p_listName p = None
            \<and> workspaceTasks calls (server w) = (Inr ts, s1)
            \<and> 2 \<le> length (filter (\<lambda>t. task_name t = name) ts)
          \<longrightarrow> TaskService_findTasks (this\<lparr>search := specified_search c calls rest\<rparr>) p w =
                (Inl (Ambiguous (filter (\<lambda>t. task_name t = name) ts)),
                 \<lparr>server = s1,
                  trace = trace w @ [LogOperation ''findTasks'' (find_args p),
                                     WorkspaceTasksQuery]\<rparr>))"
proof (intro conjI allI impI)
  fix l scope ts s1
  assume h: "((p_listId p = Some l \<and> scope = ListId l)
             \<or> (p_listId p = None \<and> p_listName p = Some l \<and> scope = ListName l))
            \<and> listTasks calls scope (server w) = (Inr ts, s1)
            \<and> 2 \<le> length (filter (\<lambda>t. task_name t = name) ts)"
  then have scope: "requested_list p = Some scope"
    by (auto simp: requested_list_def)
  from h obtain t u others where m: "filter (\<lambda>t. task_name t = name) ts = t # u # others"
    using two_or_more by blast
  from h have q: "listTasks calls scope (server w) = (Inr ts, s1)" by simp
  show "TaskService_findTasks (this\<lparr>search := specified_search c calls rest\<rparr>) p w =
                (Inl (Ambiguous (filter (\<lambda>t. task_name t = name) ts)),
                 \<lparr>server = s1,
                  trace = trace w @ [LogOperation ''findTasks'' (find_args p),
                                     ListTasksQuery scope]\<rparr>)"
    using assms scope m q
    by (simp add: TaskService_findTasks_def spec_findTasks_def requested_id_def
          name_candidates_def match_in_list_def select_match_def flag_def call_def
          logOperation_def Let_def)
next
  fix l scope ts s1
  assume h: "((p_listId p = Some l \<and> scope = ListId l)
             \<or> (p_listId p = None \<and> p_listName p = Some l \<and> scope = ListName l))
            \<and> listTasks calls scope (server w) = (Inr ts, s1)
            \<and> filter (\<lambda>t. task_name t = name) ts = []
            \<and> p_requireExactMatch p \<noteq> Some True
            \<and> 2 \<le> length (filter (\<lambda>t. contains (map lower_char (task_name t))
                                              (map lower_char name)) ts)"
  then have scope: "requested_list p = Some scope"
    by (auto simp: requested_list_def)
  from h obtain t u others
    where m: "filter (\<lambda>t. contains (map lower_char (task_name t)) (map lower_char name)) ts
                = t # u # others"
    using two_or_more by blast
  from h have q: "listTasks calls scope (server w) = (Inr ts, s1)"
    and none: "filter (\<lambda>t. task_name t = name) ts = []" by simp_all
  from h have loose: "\<not> flag (p_requireExactMatch p)"
    by (cases "p_requireExactMatch p") (auto simp: flag_def)
  have single: "\<not> flag (p_allowMultipleMatches p)"
    and unaided: "\<not> flag (p_useSmartDisambiguation p)"
    using assms(4,5) by (simp_all add: flag_def)
  show "TaskService_findTasks (this\<lparr>search := specified_search c calls rest\<rparr>) p w =
                (Inl (Ambiguous (filter (\<lambda>t. contains (map lower_char (task_name t))
                                                 (map lower_char name)) ts)),
                 \<lparr>server = s1,
                  trace = trace w @ [LogOperation ''findTasks'' (find_args p),
                                     ListTasksQuery scope]\<rparr>)"
    using assms(1,2,3) scope m q none loose single unaided
    by (simp add: TaskService_findTasks_def spec_findTasks_def requested_id_def
          name_candidates_def match_in_list_def select_match_def call_def
          logOperation_def Let_def)
next
  fix ts s1
  assume h: "p_listId p = None \<and> p_listName p = None
            \<and> workspaceTasks calls (server w) = (Inr ts, s1)
            \<and> 2 \<le> length (filter (\<lambda>t. task_name t = name) ts)"
  then have scope: "requested_list p = None"
    by (simp add: requested_list_def)
  from h obtain t u others where m: "filter (\<lambda>t. task_name t = name) ts = t # u # others"
    using two_or_more by blast
  from h have q: "workspaceTasks calls (server w) = (Inr ts, s1)" by simp
  show "TaskService_findTasks (this\<lparr>search := specified_search c calls rest\<rparr>) p w =
                (Inl (Ambiguous (filter (\<lambda>t. task_name t = name) ts)),
                 \<lparr>server = s1,
                  trace = trace w @ [LogOperation ''findTasks'' (find_args p),
                                     WorkspaceTasksQuery]\<rparr>)"
    using assms scope m q
    by (simp add: TaskService_findTasks_def spec_findTasks_def requested_id_def
          name_candidates_def select_match_def flag_def call_def
          logOperation_def Let_def)
qed

lemma lower_char_examples:
  "lower_char CHR ''F'' = CHR ''f''" "lower_char CHR ''B'' = CHR ''b''"
  "lower_char CHR ''f'' = CHR ''f''" "lower_char CHR ''o'' = CHR ''o''"
  "lower_char CHR ''a'' = CHR ''a''" "lower_char CHR ''r'' = CHR ''r''"
  by code_simp+

theorem findTasks_ambiguous_witness:
  "TaskService_findTasks memory_service
     (no_params\<lparr>p_taskName := Some ''Foo'', p_listId := Some ''L1'',
                p_allowMultipleMatches := Some False,
                p_useSmartDisambiguation := Some False\<rparr>) fresh =
     (Inl (Ambiguous [\<lparr>task_id = ''t1'', task_name = ''Foo'', custom_fields = None\<rparr>,
                      \<lparr>task_id = ''t3'', task_name = ''Foo'', custom_fields = None\<rparr>]),
      \<lparr>server = [],
       trace = [LogOperation ''findTasks''
                  [(''taskName'', LStr ''Foo''), (''listId'', LStr ''L1''),
                   (''allowMultipleMatches'', LBool False),
                   (''useSmartDisambiguation'', LBool False)],
                ListTasksQuery (ListId ''L1'')]\<rparr>)
   \<and> TaskService_findTasks memory_service
     (no_params\<lparr>p_taskName := Some ''fo'', p_listId := Some ''L1'',
                p_allowMultipleMatches := Some False,
                p_useSmartDisambiguation := Some False\<rparr>) fresh =
     (Inl (Ambiguous [\<lparr>task_id = ''t1'', task_name = ''Foo'', custom_fields = None\<rparr>,
                      \<lparr>task_id = ''t3'', task_name = ''Foo'', custom_fields = None\<rparr>]),
      \<lparr>server = [],
       trace = [LogOperation ''findTasks''
                  [(''taskName'', LStr ''fo''), (''listId'', LStr ''L1''),
                   (''allowMultipleMatches'', LBool False),
                   (''useSmartDisambiguation'', LBool False)],
                ListTasksQuery (ListId ''L1'')]\<rparr>)
   \<and> TaskService_findTasks memory_service
     (no_params\<lparr>p_taskName := Some ''Foo'',
                p_allowMultipleMatches := Some False,
                p_useSmartDisambiguation := Some False\<rparr>) fresh =
     (Inl (Ambiguous [\<lparr>task_id = ''t1'', task_name = ''Foo'', custom_fields = None\<rparr>,
                      \<lparr>task_id = ''t3'', task_name = ''Foo'', custom_fields = None\<rparr>]),
      \<lparr>server = [],
       trace = [LogOperation ''findTasks''
                  [(''taskName'', LStr ''Foo''),
                   (''allowMultipleMatches'', LBool False),
                   (''useSmartDisambiguation'', LBool False)],
                WorkspaceTasksQuery]\<rparr>)"
proof -
  let ?in_list = "no_params\<lparr>p_taskName := Some ''Foo'', p_listId := Some ''L1'',
                     p_allowMultipleMatches := Some False,
                     p_useSmartDisambiguation := Some False\<rparr>"
  let ?loosely = "no_params\<lparr>p_taskName := Some ''fo'', p_listId := Some ''L1'',
                     p_allowMultipleMatches := Some False,
                     p_useSmartDisambiguation := Some False\<rparr>"
  let ?anywhere = "no_params\<lparr>p_taskName := Some ''Foo'',
                     p_allowMultipleMatches := Some False,
                     p_useSmartDisambiguation := Some False\<rparr>"
  have in_list: "p_taskId ?in_list = None" "p_customTaskId ?in_list = None"
      "p_taskName ?in_list = Some ''Foo''" "p_allowMultipleMatches ?in_list = Some False"
      "p_useSmartDisambiguation ?in_list = Some False"
    by (simp_all add: no_params_def)
  have loosely: "p_taskId ?loosely = None" "p_customTaskId ?loosely = None"
      "p_taskName ?loosely = Some ''fo''" "p_allowMultipleMatches ?loosely = Some False"
      "p_useSmartDisambiguation ?loosely = Some False"
    by (simp_all add: no_params_def)
  have anywhere: "p_taskId ?anywhere = None" "p_customTaskId ?anywhere = None"
      "p_taskName ?anywhere = Some ''Foo''" "p_allowMultipleMatches ?anywhere = Some False"
      "p_useSmartDisambiguation ?anywhere = Some False"
    by (simp_all add: no_params_def)
  note exact =
    findTasks_ambiguous [OF in_list, where this = memory_service and c = memory_core
      and calls = memory_calls and rest = memory_search_rest and w = fresh,
      unfolded memory_service_search, THEN conjunct1, rule_format,
      of "''L1''" "ListId ''L1''" memory_tasks "[]"]
  note loose =
    findTasks_ambiguous [OF loosely, where this = memory_service and c = memory_core
      and calls = memory_calls and rest = memory_search_rest and w = fresh,
      unfolded memory_service_search, THEN conjunct2, THEN conjunct1, rule_format,
      of "''L1''" "ListId ''L1''" memory_tasks "[]"]
  note global =
    findTasks_ambiguous [OF anywhere, where this = memory_service and c = memory_core
      and calls = memory_calls and rest = memory_search_rest and w = fresh,
      unfolded memory_service_search, THEN conjunct2, THEN conjunct2, rule_format,
      of memory_tasks "[]"]
  have 1: "TaskService_findTasks memory_service ?in_list fresh =
             (Inl (Ambiguous (filter (\<lambda>t. task_name t = ''Foo'') memory_tasks)),
              \<lparr>server = [],
               trace = trace fresh @ [LogOperation ''findTasks'' (find_args ?in_list),
                                      ListTasksQuery (ListId ''L1'')]\<rparr>)"
    by (rule exact) (simp add: no_params_def memory_calls_def fresh_def memory_tasks_def)
  have 2: "TaskService_findTasks memory_service ?loosely fresh =
             (Inl (Ambiguous (filter (\<lambda>t. contains (map lower_char (task_name t))
                                               (map lower_char ''fo'')) memory_tasks)),
              \<lparr>server = [],
               trace = trace fresh @ [LogOperation ''findTasks'' (find_args ?loosely),
                                      ListTasksQuery (ListId ''L1'')]\<rparr>)"
    by (rule loose)
       (simp add: no_params_def memory_calls_def fresh_def memory_tasks_def lower_char_examples)
  have 3: "TaskService_findTasks memory_service ?anywhere fresh =
             (Inl (Ambiguous (filter (\<lambda>t. task_name t = ''Foo'') memory_tasks)),
              \<lparr>server = [],
               trace = trace fresh @ [LogOperation ''findTasks'' (find_args ?anywhere),
                                      WorkspaceTasksQuery]\<rparr>)"
    by (rule global) (simp add: no_params_def memory_calls_def fresh_def memory_tasks_def)
  from 1 2 3 show ?thesis
    by (simp add: memory_tasks_def lower_char_examples fresh_def find_args_def opt_arg_def
          flag_arg_def no_params_def)
qed

text \<open>
  C5. \<open>findTaskByNameGlobally\<close> makes one workspace-wide query and filters its result by
  equality of the name. When the query succeeds and no task has the name, the method
  resolves with \<open>null\<close>; it does not raise an error.
\<close>

theorem findTaskByNameGlobally_null_when_no_match:
  assumes "fst (workspaceTasks calls (server w)) = Inr ts"
  shows "fst (TaskService_findTaskByNameGlobally
                (this\<lparr>search := specified_search c calls rest\<rparr>) name w) =
           Inr (find (\<lambda>t. task_name t = name) ts)
         \<and> ((\<forall>t \<in> set ts. task_name t \<noteq> name) \<longrightarrow>
              fst (TaskService_findTaskByNameGlobally
                     (this\<lparr>search := specified_search c calls rest\<rparr>) name w) = Inr None)
         \<and> trace (snd (TaskService_findTaskByNameGlobally
                          (this\<lparr>search := specified_search c calls rest\<rparr>) name w)) =
             trace w @ [LogOperation ''findTaskByNameGlobally'' [(''taskName'', LStr name)],
                        WorkspaceTasksQuery]"
proof -
  obtain r s' where q: "workspaceTasks calls (server w) = (r, s')"
    by (cases "workspaceTasks calls (server w)")
  with assms have r: "r = Inr ts" by simp
  have "(\<forall>t \<in> set ts. task_name t \<noteq> name) \<longrightarrow> find (\<lambda>t. task_name t = name) ts = None"
    by (simp add: find_None_iff)
  then show ?thesis
    using q r
    by (simp add: TaskService_findTaskByNameGlobally_def spec_findTaskByNameGlobally_def
          call_def logOperation_def Let_def)
qed

theorem findTaskByNameGlobally_null_when_no_match_witness:
  "fst (TaskService_findTaskByNameGlobally memory_service ''Baz'' fresh) = Inr None
   \<and> trace (snd (TaskService_findTaskByNameGlobally memory_service ''Baz'' fresh)) =
       [LogOperation ''findTaskByNameGlobally'' [(''taskName'', LStr ''Baz'')], WorkspaceTasksQuery]
   \<and> fst (TaskService_findTaskByNameGlobally memory_service ''Bar'' fresh) =
       Inr (Some \<lparr>task_id = ''t2'', task_name = ''Bar'', custom_fields = None\<rparr>)"
proof -
  have q: "fst (workspaceTasks memory_calls (server fresh)) = Inr memory_tasks"
    by (simp add: memory_calls_def)
  show ?thesis
    using findTaskByNameGlobally_null_when_no_match
            [OF q, where this = memory_service and c = memory_core and rest = memory_search_rest
               and name = "''Baz''", unfolded memory_service_search]
          findTaskByNameGlobally_null_when_no_match
            [OF q, where this = memory_service and c = memory_core and rest = memory_search_rest
               and name = "''Bar''", unfolded memory_service_search]
    by (simp add: memory_tasks_def fresh_def)
qed

text \<open>
  C6. \<open>updateTaskByName\<close> looks the name up among the tasks of the list. With no match it
  fails with NotFound and with two or more matches it fails with Ambiguous: in both cases
  the only call made is the list query, so no update is attempted and the remote state
  is the one the query left. With exactly one match the update call is issued for that
  task, and its outcome is the method's outcome.
\<close>

theorem updateTaskByName_updates_only_unique_match:
  assumes "listTasks calls (ListId listId) (server w) = (Inr ts, s1)"
  shows "(filter (\<lambda>t. task_name t = name) ts = [] \<longrightarrow>
            TaskService_updateTaskByName (this\<lparr>search := specified_search c calls rest\<rparr>)
              listId name updateData w =
            (Inl (NotFound name),
             \<lparr>server = s1,
              trace = trace w @ [LogOperation ''updateTaskByName''
                                   [(''listId'', LStr listId), (''taskName'', LStr name)],
                                 ListTasksQuery (ListId listId)]\<rparr>))
         \<and> (2 \<le> length (filter (\<lambda>t. task_name t = name) ts) \<longrightarrow>
            TaskService_updateTaskByName (this\<lparr>search := specified_search c calls rest\<rparr>)
              listId name updateData w =
            (Inl (Ambiguous (filter (\<lambda>t. task_name t = name) ts)),
             \<lparr>server = s1,
              trace = trace w @ [LogOperation ''updateTaskByName''
                                   [(''listId'', LStr listId), (''taskName'', LStr name)],
                                 ListTasksQuery (ListId listId)]\<rparr>))
         \<and> (\<forall>t. filter (\<lambda>t. task_name t = name) ts = [t] \<longrightarrow>
            TaskService_updateTaskByName (this\<lparr>search := specified_search c calls rest\<rparr>)
              listId name updateData w =
            (fst (updateTask calls (task_id t) updateData s1),
             \<lparr>server = snd (updateTask calls (task_id t) updateData s1),
              trace = trace w @ [LogOperation ''updateTaskByName''
                                   [(''listId'', LStr listId), (''taskName'', LStr name)],
                                 ListTasksQuery (ListId listId),
                                 UpdateTask (task_id t)]\<rparr>))"
proof -
  show ?thesis
  proof (intro conjI impI allI)
    assume "filter (\<lambda>t. task_name t = name) ts = []"
    then show "TaskService_updateTaskByName (this\<lparr>search := specified_search c calls rest\<rparr>)
              listId name updateData w =
            (Inl (NotFound name),
             \<lparr>server = s1,
              trace = trace w @ [LogOperation ''updateTaskByName''
                                   [(''listId'', LStr listId), (''taskName'', LStr name)],
                                 ListTasksQuery (ListId listId)]\<rparr>)"
      using assms
      by (simp add: TaskService_updateTaskByName_def spec_updateTaskByName_def call_def
            logOperation_def Let_def)
  next
    assume "2 \<le> length (filter (\<lambda>t. task_name t = name) ts)"
    then obtain t u others where "filter (\<lambda>t. task_name t = name) ts = t # u # others"
      using two_or_more by blast
    then show "TaskService_updateTaskByName (this\<lparr>search := specified_search c calls rest\<rparr>)
              listId name updateData w =
            (Inl (Ambiguous (filter (\<lambda>t. task_name t = name) ts)),
             \<lparr>server = s1,
              trace = trace w @ [LogOperation ''updateTaskByName''
                                   [(''listId'', LStr listId), (''taskName'', LStr name)],
                                 ListTasksQuery (ListId listId)]\<rparr>)"
      using assms
      by (simp add: TaskService_updateTaskByName_def spec_updateTaskByName_def call_def
            logOperation_def Let_def)
  next
    fix t
    assume "filter (\<lambda>t. task_name t = name) ts = [t]"
    then show "TaskService_updateTaskByName (this\<lparr>search := specified_search c calls rest\<rparr>)
              listId name updateData w =
            (fst (updateTask calls (task_id t) updateData s1),
             \<lparr>server = snd (updateTask calls (task_id t) updateData s1),
              trace = trace w @ [LogOperation ''updateTaskByName''
                                   [(''listId'', LStr listId), (''taskName'', LStr name)],
                                 ListTasksQuery (ListId listId),
                                 UpdateTask (task_id t)]\<rparr>)"
      using assms
      by (simp add: TaskService_updateTaskByName_def spec_updateTaskByName_def call_def
            logOperation_def Let_def split: prod.splits)
  qed
qed

theorem updateTaskByName_updates_only_unique_match_witness:
  "TaskService_updateTaskByName memory_service ''L1'' ''Baz'' Map.empty fresh =
     (Inl (NotFound ''Baz''),
      \<lparr>server = [],
       trace = [LogOperation ''updateTaskByName''
                  [(''listId'', LStr ''L1''), (''taskName'', LStr ''Baz'')],
                ListTasksQuery (ListId ''L1'')]\<rparr>)
   \<and> TaskService_updateTaskByName memory_service ''L1'' ''Foo'' Map.empty fresh =
     (Inl (Ambiguous [\<lparr>task_id = ''t1'', task_name = ''Foo'', custom_fields = None\<rparr>,
                      \<lparr>task_id = ''t3'', task_name = ''Foo'', custom_fields = None\<rparr>]),
      \<lparr>server = [],
       trace = [LogOperation ''updateTaskByName''
                  [(''listId'', LStr ''L1''), (''taskName'', LStr ''Foo'')],
                ListTasksQuery (ListId ''L1'')]\<rparr>)
   \<and> TaskService_updateTaskByName memory_service ''L1'' ''Bar'' Map.empty fresh =
     (Inr \<lparr>task_id = ''t2'', task_name = ''Renamed'', custom_fields = None\<rparr>,
      \<lparr>server = [(''/task/t2'', 0)],
       trace = [LogOperation ''updateTaskByName''
                  [(''listId'', LStr ''L1''), (''taskName'', LStr ''Bar'')],
                ListTasksQuery (ListId ''L1''), UpdateTask ''t2'']\<rparr>)"
proof -
  have q: "listTasks memory_calls (ListId ''L1'') (server fresh) = (Inr memory_tasks, [])"
    by (simp add: memory_calls_def fresh_def)
  show ?thesis
    using updateTaskByName_updates_only_unique_match
            [OF q, where this = memory_service and c = memory_core and rest = memory_search_rest
               and name = "''Baz''" and updateData = Map.empty, unfolded memory_service_search]
          updateTaskByName_updates_only_unique_match
            [OF q, where this = memory_service and c = memory_core and rest = memory_search_rest
               and name = "''Foo''" and updateData = Map.empty, unfolded memory_service_search]
          updateTaskByName_updates_only_unique_match
            [OF q, where this = memory_service and c = memory_core and rest = memory_search_rest
               and name = "''Bar''" and updateData = Map.empty, unfolded memory_service_search]
    by (simp add: memory_tasks_def memory_calls_def fresh_def)
qed

end
